theory Spec2Isabelle
  imports Complex_Main "HOL-Library.Word" "HOL-Library.Sublist"
begin

section \<open>The NovaProWireless controller of nova.py\<close>

text \<open>
  The program is one Python class, \<^verbatim>\<open>NovaProWireless\<close>, that talks to a USB base station
  (pyusb) and to a PulseAudio/PipeWire server (pulsectl). The class is embedded with
  explicit state passing: one record holds the attributes of the object together with
  the part of the two collaborators the methods can observe or change. Exceptions are
  values of \<open>error\<close>; a method that can raise returns an \<open>outcome\<close> which keeps the state
  reached when the exception left the method.
\<close>

subsection \<open>Bytes, errors, constants\<close>

type_synonym byte = "8 word"

datatype error = ValueError | IndexError | UnboundLocalError | PulseError | USBError

definition HEADSET_NAME :: string where
  "HEADSET_NAME = ''SteelSeries_Arctis_Nova_Pro_Wireless''"

definition ENDPOINT_TX :: int where "ENDPOINT_TX = 0x4"
definition ENDPOINT_RX :: int where "ENDPOINT_RX = 0x84"
definition MSGLEN :: nat where "MSGLEN = 64"
definition TX :: int where "TX = 0x6"
definition RX :: int where "RX = 0x7"
definition OPT_CHATMIX_ENABLE :: int where "OPT_CHATMIX_ENABLE = 73"
definition OPT_VOLUME :: int where "OPT_VOLUME = 37"
definition OPT_CHATMIX :: int where "OPT_CHATMIX = 69"
definition OPT_EQ :: int where "OPT_EQ = 49"
definition OPT_EQ_PRESET :: int where "OPT_EQ_PRESET = 46"
definition PW_GAME_SINK :: string where "PW_GAME_SINK = ''NovaGame''"

subsection \<open>Building a message\<close>

text \<open>
  \<^verbatim>\<open>bytes(data)\<close> raises ValueError unless every int is in \<open>range(256)\<close>.
  \<^verbatim>\<open>b.ljust(width, fill)\<close> appends \<open>fill\<close> until the length is \<open>width\<close> and returns
  \<open>b\<close> itself when it is already that long. The fill byte of the source is \<^verbatim>\<open>b"0"\<close>,
  the ASCII digit, 0x30.
\<close>

definition py_bytes :: "int list \<Rightarrow> error + byte list" where
  "py_bytes data =
     (if list_all (\<lambda>x. 0 \<le> x \<and> x < 256) data then Inr (map word_of_int data)
      else Inl ValueError)"

definition ljust :: "'a list \<Rightarrow> nat \<Rightarrow> 'a \<Rightarrow> 'a list" where
  "ljust b width fillbyte = b @ replicate (width - length b) fillbyte"

definition create_msgdata :: "int list \<Rightarrow> error + byte list" where
  "create_msgdata data =
     (case py_bytes data of
        Inl e \<Rightarrow> Inl e
      | Inr b \<Rightarrow> Inr (ljust b MSGLEN 0x30))"

subsection \<open>The audio server\<close>

text \<open>
  pulsectl is an external library; the server is modelled as far as the methods use it:
  a list of loaded modules, a list of sinks with their owner module and volume, and the
  index the next loaded module gets. The two operations the source wraps in
  \<^verbatim>\<open>try ... except PulseError\<close> (loading a module in \<open>_create_sink\<close>, setting a volume
  in \<open>_set_sink_volume\<close>) can be refused: \<open>faults\<close> is the script of the coming answers
  of the server to such requests, \<open>True\<close> for a PulseError, and an exhausted script
  means no refusal. Listing sinks or modules and unloading a listed module succeed.

  \<open>_set_sink_volume\<close> opens its connection, \<^verbatim>\<open>pulsectl.Pulse('volume-control')\<close>, before
  its \<^verbatim>\<open>try\<close>: when the server cannot be reached the PulseError of the constructor is not
  caught. \<open>connects\<close> is the script of the answers to the coming volume-control
  connections, \<open>True\<close> for a PulseError. The connections of the other methods are taken
  to succeed.
\<close>

record module_info =
  mod_index :: nat
  mod_name :: string
  mod_argument :: string

record sink_info =
  sink_index :: nat
  sink_name :: string
  sink_owner_module :: nat
  sink_volume :: rat

record pulse =
  modules :: "module_info list"
  sinks :: "sink_info list"
  next_index :: nat
  faults :: "bool list"
  connects :: "bool list"

definition next_fault :: "pulse \<Rightarrow> bool \<times> pulse" where
  "next_fault p =
     (case faults p of [] \<Rightarrow> (False, p) | f # fs \<Rightarrow> (f, p\<lparr>faults := fs\<rparr>))"

definition next_connect :: "pulse \<Rightarrow> bool \<times> pulse" where
  "next_connect p =
     (case connects p of [] \<Rightarrow> (False, p) | f # fs \<Rightarrow> (f, p\<lparr>connects := fs\<rparr>))"



definition module_unload :: "pulse \<Rightarrow> nat \<Rightarrow> pulse" where
  "module_unload p i =
     p\<lparr>modules := filter (\<lambda>m. mod_index m \<noteq> i) (modules p),
       sinks := filter (\<lambda>s. sink_owner_module s \<noteq> i) (sinks p)\<rparr>"

definition volume_set_all_chans :: "pulse \<Rightarrow> sink_info \<Rightarrow> rat \<Rightarrow> (error + unit) \<times> pulse" where
  "volume_set_all_chans p target vol =
     (case next_fault p of
        (True, p') \<Rightarrow> (Inl PulseError, p')
      | (False, p') \<Rightarrow>
          (Inr (),
           p'\<lparr>sinks := map (\<lambda>s. if sink_index s = sink_index target
                                 then s\<lparr>sink_volume := vol\<rparr> else s) (sinks p')\<rparr>))"

subsection \<open>The object and what it prints\<close>

datatype line =
    Raw "byte list"
  | Volume_line byte
  | ChatMix_line byte byte
  | EQ_line byte rat
  | EQ_Preset_line byte
  | Unknown_Message
  | Sink_not_found "nat option"
  | Failed_to_set_volume
  | Device_disconnected

text \<open>
  The first six fields are the attributes of the object the methods assign. \<open>written\<close>
  is what \<^verbatim>\<open>self.dev.write\<close> has sent (endpoint and data), \<open>server\<close> is the audio server
  and \<open>stdout\<close> is the printed lines.
\<close>

record nova =
  PW_ORIGINAL_SINK :: "string option"
  PW_LOOPBACK_GAME_MODULE_ID :: "nat option"
  PW_LOOPBACK_CHAT_MODULE_ID :: "nat option"
  CHATMIX_CONTROLS_ENABLED :: bool
  SONAR_ICON_ENABLED :: bool
  CLOSE :: bool
  written :: "(int \<times> byte list) list"
  server :: pulse
  stdout :: "line list"

datatype outcome = Done nova | Raised error nova | Blocked nova


fun final :: "outcome \<Rightarrow> nova" where
  "final (Done s) = s"
| "final (Raised e s) = s"
| "final (Blocked s) = s"

definition print :: "nova \<Rightarrow> line \<Rightarrow> nova" where
  "print s l = s\<lparr>stdout := stdout s @ [l]\<rparr>"


definition dev_write :: "nova \<Rightarrow> int \<Rightarrow> byte list \<Rightarrow> nova" where
  "dev_write s endpoint data = s\<lparr>written := written s @ [(endpoint, data)]\<rparr>"



definition set_volume :: "nova \<Rightarrow> int \<Rightarrow> outcome" where
  "set_volume s attenuation =
     (case create_msgdata [TX, OPT_VOLUME, attenuation] of
        Inl e \<Rightarrow> Raised e s
      | Inr m \<Rightarrow> Done (dev_write s ENDPOINT_TX m))"

definition set_eq_preset :: "nova \<Rightarrow> int \<Rightarrow> outcome" where
  "set_eq_preset s preset =
     (case create_msgdata [TX, OPT_EQ_PRESET, preset] of
        Inl e \<Rightarrow> Raised e s
      | Inr m \<Rightarrow> Done (dev_write s ENDPOINT_TX m))"

subsection \<open>The virtual sinks\<close>

text \<open>
  \<^verbatim>\<open>if self.PW_ORIGINAL_SINK:\<close> is Python truthiness: \<open>None\<close> and the empty string
  are false. The loop over the sinks has no \<^verbatim>\<open>break\<close>: every matching sink assigns.
\<close>

definition truthy :: "string option \<Rightarrow> bool" where
  "truthy v = (case v of None \<Rightarrow> False | Some x \<Rightarrow> x \<noteq> [])"

fun detect_loop :: "sink_info list \<Rightarrow> nova \<Rightarrow> nova" where
  "detect_loop [] s = s"
| "detect_loop (sink # rest) s =
     (if sublist HEADSET_NAME (sink_name sink)
      then detect_loop rest (s\<lparr>PW_ORIGINAL_SINK := Some (sink_name sink)\<rparr>)
      else detect_loop rest s)"

definition detect_original_sink :: "nova \<Rightarrow> nova" where
  "detect_original_sink s =
     (if truthy (PW_ORIGINAL_SINK s) then s else detect_loop (sinks (server s)) s)"

definition remove_sink :: "nova \<Rightarrow> nat \<Rightarrow> nova" where
  "remove_sink s module_id =
     (case find (\<lambda>m. module_id = mod_index m) (modules (server s)) of
        None \<Rightarrow> s
      | Some m \<Rightarrow> s\<lparr>server := module_unload (server s) (mod_index m)\<rparr>)"

definition remove_virtual_sinks :: "nova \<Rightarrow> nova" where
  "remove_virtual_sinks s =
     (let s1 = (case PW_LOOPBACK_GAME_MODULE_ID s of
                  None \<Rightarrow> s
                | Some g \<Rightarrow> (remove_sink s g)\<lparr>PW_LOOPBACK_GAME_MODULE_ID := None\<rparr>)
      in case PW_LOOPBACK_CHAT_MODULE_ID s1 of
           None \<Rightarrow> s1
         | Some c \<Rightarrow> (remove_sink s1 c)\<lparr>PW_LOOPBACK_CHAT_MODULE_ID := None\<rparr>)"

text \<open>
  The f-string of \<open>_create_sink\<close> formats an unset target as the text \<open>None\<close>. In
  the handler of \<open>_create_sink\<close> the local \<open>new_sink\<close> was never assigned: evaluating
  the argument of \<^verbatim>\<open>pulse.module_unload(new_sink)\<close> raises UnboundLocalError, which
  leaves the method before anything is unloaded or printed.
\<close>

definition py_str :: "string option \<Rightarrow> string" where
  "py_str v = (case v of None \<Rightarrow> ''None'' | Some x \<Rightarrow> x)"

definition sink_arguments :: "string \<Rightarrow> string option \<Rightarrow> string" where
  "sink_arguments sinkname output_sink =
     ''sink_name='' @ sinkname @ '' slaves='' @ py_str output_sink @
     '' sink_properties=device.description='' @ sinkname"



subsection \<open>Volumes\<close>

text \<open>
  \<^verbatim>\<open>gamevol * 0.01\<close> is a product of binary64 floats. The literal 0.01 is the double
  \<open>5764607523034235 / 2^59\<close>, a byte is an exact double, and the product is the exact
  product rounded to 53 significant bits, ties to even. The result is given as the
  rational number the double stands for.
\<close>

function bit_length :: "int \<Rightarrow> nat" where
  "bit_length n = (if n \<le> 0 then 0 else Suc (bit_length (n div 2)))"
  by pat_completeness auto
termination
  by (relation "measure nat") auto

declare bit_length.simps [simp del]

definition round_half_even :: "int \<Rightarrow> nat \<Rightarrow> int" where
  "round_half_even n sh =
     (if sh = 0 then n
      else let q = n div 2 ^ sh; r = n mod 2 ^ sh; half = 2 ^ (sh - 1)
           in if half < r \<or> (r = half \<and> odd q) then q + 1 else q)"

definition times_one_hundredth :: "byte \<Rightarrow> rat" where
  "times_one_hundredth v =
     (let n = uint v * 5764607523034235; sh = bit_length n - 53
      in of_int (round_half_even n sh * 2 ^ sh) / 2 ^ 59)"

text \<open>
  \<open>_set_sink_volume\<close> has two parts. The body of its \<^verbatim>\<open>with\<close> statement is the
  \<^verbatim>\<open>try\<close>: the first sink owned by the module is the target; a sink object is always
  true, so the \<^verbatim>\<open>else\<close> branch is the case that \<^verbatim>\<open>next\<close> gave \<open>None\<close>; a PulseError
  raised there is caught and reported. Before it, the \<^verbatim>\<open>with\<close> statement opens the
  connection, and the PulseError of a connection that cannot be opened leaves the method.
\<close>

definition set_sink_volume_try :: "nova \<Rightarrow> nat option \<Rightarrow> rat \<Rightarrow> nova" where
  "set_sink_volume_try s module_id vol =
     (case find (\<lambda>sink. Some (sink_owner_module sink) = module_id) (sinks (server s)) of
        None \<Rightarrow> print s (Sink_not_found module_id)
      | Some target_sink \<Rightarrow>
          (case volume_set_all_chans (server s) target_sink vol of
             (Inr u, p) \<Rightarrow> s\<lparr>server := p\<rparr>
           | (Inl e, p) \<Rightarrow> print (s\<lparr>server := p\<rparr>) Failed_to_set_volume))"

definition set_sink_volume :: "nova \<Rightarrow> nat option \<Rightarrow> rat \<Rightarrow> (error \<times> nova) + nova" where
  "set_sink_volume s module_id vol =
     (case next_connect (server s) of
        (True, p) \<Rightarrow> Inl (PulseError, s\<lparr>server := p\<rparr>)
      | (False, p) \<Rightarrow> Inr (set_sink_volume_try (s\<lparr>server := p\<rparr>) module_id vol))"

subsection \<open>The read loops\<close>

text \<open>
  \<^verbatim>\<open>self.dev.read\<close> blocks until the base station answers, the timeout expires or the
  transport fails; what the reads of a run return is a list of \<open>read_result\<close>, one per
  call. A loop that has used up the list and would read again is \<open>Blocked\<close> in that
  read. \<^verbatim>\<open>msg[i]\<close> on a shorter answer raises IndexError, which no handler of the loops
  catches, and neither is the PulseError that leaves \<open>_set_sink_volume\<close>.
\<close>

datatype read_result = Read_data "byte list" | Read_timeout | Read_error

definition getitem :: "'a list \<Rightarrow> nat \<Rightarrow> error + 'a" where
  "getitem xs i = (if i < length xs then Inr (xs ! i) else Inl IndexError)"

definition chatmix_body :: "nova \<Rightarrow> read_result \<Rightarrow> (error \<times> nova) + nova" where
  "chatmix_body s r =
     (case r of
        Read_timeout \<Rightarrow> Inr s
      | Read_error \<Rightarrow>
          Inr (remove_virtual_sinks ((print s Device_disconnected)\<lparr>CLOSE := True\<rparr>))
      | Read_data msg \<Rightarrow>
          (case getitem msg 1 of
             Inl e \<Rightarrow> Inl (e, s)
           | Inr opt \<Rightarrow>
               if uint opt \<noteq> OPT_CHATMIX then Inr s
               else
                 (case getitem msg 2 of
                    Inl e \<Rightarrow> Inl (e, s)
                  | Inr gamevol \<Rightarrow>
                      (case getitem msg 3 of
                         Inl e \<Rightarrow> Inl (e, s)
                       | Inr chatvol \<Rightarrow>
                           (case set_sink_volume s (PW_LOOPBACK_GAME_MODULE_ID s)
                                   (times_one_hundredth gamevol) of
                              Inl (e, s1) \<Rightarrow> Inl (e, s1)
                            | Inr s1 \<Rightarrow>
                                set_sink_volume s1 (PW_LOOPBACK_CHAT_MODULE_ID s1)
                                  (times_one_hundredth chatvol))))))"

fun chatmix_loop :: "nova \<Rightarrow> read_result list \<Rightarrow> outcome" where
  "chatmix_loop s [] =
     (if CLOSE s then Done (remove_virtual_sinks s) else Blocked s)"
| "chatmix_loop s (r # rs) =
     (if CLOSE s then Done (remove_virtual_sinks s)
      else case chatmix_body s r of
             Inl (e, s') \<Rightarrow> Raised e s'
           | Inr s' \<Rightarrow> chatmix_loop s' rs)"


text \<open>
  \<open>print_output\<close> catches the timeout only: any other transport error leaves the
  method. \<^verbatim>\<open>(msg[3] - 20) / 2\<close> is a true division of a small int by 2, exact in
  binary64.
\<close>

definition describe :: "byte list \<Rightarrow> error + line" where
  "describe msg =
     (case getitem msg 1 of
        Inl e \<Rightarrow> Inl e
      | Inr opt \<Rightarrow>
          if uint opt = OPT_VOLUME then map_sum id Volume_line (getitem msg 2)
          else if uint opt = OPT_CHATMIX then
            (case getitem msg 2 of
               Inl e \<Rightarrow> Inl e
             | Inr g \<Rightarrow> map_sum id (ChatMix_line g) (getitem msg 3))
          else if uint opt = OPT_EQ then
            (case getitem msg 2 of
               Inl e \<Rightarrow> Inl e
             | Inr b \<Rightarrow> map_sum id (\<lambda>v. EQ_line b (of_int (uint v - 20) / 2)) (getitem msg 3))
          else if uint opt = OPT_EQ_PRESET then map_sum id EQ_Preset_line (getitem msg 2)
          else Inr Unknown_Message)"

definition print_output_body :: "nova \<Rightarrow> bool \<Rightarrow> read_result \<Rightarrow> (error \<times> nova) + nova" where
  "print_output_body s debug r =
     (case r of
        Read_timeout \<Rightarrow> Inr s
      | Read_error \<Rightarrow> Inl (USBError, s)
      | Read_data msg \<Rightarrow>
          (let s1 = (if debug then print s (Raw msg) else s) in
           case describe msg of
             Inl e \<Rightarrow> Inl (e, s1)
           | Inr l \<Rightarrow> Inr (print s1 l)))"

fun print_output :: "nova \<Rightarrow> bool \<Rightarrow> read_result list \<Rightarrow> outcome" where
  "print_output s debug [] = (if CLOSE s then Done s else Blocked s)"
| "print_output s debug (r # rs) =
     (if CLOSE s then Done s
      else case print_output_body s debug r of
             Inl (e, s') \<Rightarrow> Raised e s'
           | Inr s' \<Rightarrow> print_output s' debug rs)"

subsection \<open>Shutdown\<close>



subsection \<open>Example states\<close>

text \<open>
  The class attributes as the source initialises them, around a given audio server.
\<close>

definition fresh :: "pulse \<Rightarrow> nova" where
  "fresh p =
     \<lparr>PW_ORIGINAL_SINK = None, PW_LOOPBACK_GAME_MODULE_ID = None,
      PW_LOOPBACK_CHAT_MODULE_ID = None, CHATMIX_CONTROLS_ENABLED = False,
      SONAR_ICON_ENABLED = False, CLOSE = False, written = [], server = p, stdout = []\<rparr>"

definition headset_sink :: sink_info where
  "headset_sink =
     \<lparr>sink_index = 0,
      sink_name = ''alsa_output.usb-SteelSeries_Arctis_Nova_Pro_Wireless-00.analog-stereo'',
      sink_owner_module = 0, sink_volume = 1\<rparr>"

definition headset_sink2 :: sink_info where
  "headset_sink2 =
     \<lparr>sink_index = 1,
      sink_name = ''alsa_output.usb-SteelSeries_Arctis_Nova_Pro_Wireless-00.iec958-stereo'',
      sink_owner_module = 1, sink_volume = 1\<rparr>"

definition speakers_sink :: sink_info where
  "speakers_sink =
     \<lparr>sink_index = 2, sink_name = ''alsa_output.pci-0000_00_1f.3.analog-stereo'',
      sink_owner_module = 2, sink_volume = 1\<rparr>"

definition card_module :: "nat \<Rightarrow> module_info" where
  "card_module i = \<lparr>mod_index = i, mod_name = ''module-alsa-card'', mod_argument = []\<rparr>"

definition pulse_of :: "sink_info list \<Rightarrow> bool list \<Rightarrow> pulse" where
  "pulse_of ss fs =
     \<lparr>modules = map (\<lambda>s. card_module (sink_owner_module s)) ss, sinks = ss,
      next_index = 3, faults = fs, connects = []\<rparr>"

text \<open>
  A state with the game sink bound and the chat sink not, the status icon enabled.
\<close>

definition one_sink_left :: nova where
  "one_sink_left =
     (fresh \<lparr>modules = [card_module 0, \<lparr>mod_index = 3, mod_name = ''module-combine-sink'',
                          mod_argument = sink_arguments PW_GAME_SINK (Some (sink_name headset_sink))\<rparr>],
            sinks = [headset_sink,
                     \<lparr>sink_index = 3, sink_name = PW_GAME_SINK, sink_owner_module = 3,
                      sink_volume = 1\<rparr>],
            next_index = 5, faults = [], connects = []\<rparr>)
     \<lparr>PW_ORIGINAL_SINK := Some (sink_name headset_sink),
      PW_LOOPBACK_GAME_MODULE_ID := Some 3, SONAR_ICON_ENABLED := True\<rparr>"


definition no_headset :: nova where
  "no_headset = fresh (pulse_of [speakers_sink] [])"







subsection \<open>Observations used in the statements\<close>

text \<open>
  The number of Sink Bindings is the number of module identifiers the object holds.
  \<open>loaded\<close> tells whether the server has a module of a given index, \<open>target_sink\<close> is
  the sink \<open>_set_sink_volume\<close> picks for an identifier and \<open>volume_of\<close> its volume.
  \<open>refused fs i\<close> tells whether the script \<open>fs\<close> refuses the request number \<open>i\<close>.
\<close>

definition bindings :: "nova \<Rightarrow> nat" where
  "bindings s =
     (if PW_LOOPBACK_GAME_MODULE_ID s = None then 0 else 1) +
     (if PW_LOOPBACK_CHAT_MODULE_ID s = None then 0 else 1)"

definition loaded :: "pulse \<Rightarrow> nat option \<Rightarrow> bool" where
  "loaded p module_id = list_ex (\<lambda>m. Some (mod_index m) = module_id) (modules p)"

definition target_sink :: "pulse \<Rightarrow> nat option \<Rightarrow> sink_info option" where
  "target_sink p module_id =
     find (\<lambda>sink. Some (sink_owner_module sink) = module_id) (sinks p)"


definition refused :: "bool list \<Rightarrow> nat \<Rightarrow> bool" where
  "refused fs i = (i < length fs \<and> fs ! i)"

section \<open>Properties\<close>

subsection \<open>Messages\<close>

lemma create_msgdata_bytes:
  "list_all (\<lambda>x. 0 \<le> x \<and> x < 256) data \<Longrightarrow>
   create_msgdata data = Inr (map word_of_int data @ replicate (64 - length data) 0x30)"
  by (simp add: create_msgdata_def py_bytes_def ljust_def MSGLEN_def)

text \<open>
  C1. The claim is that the bytes after the payload are 0x00. At the message
  \<open>set_chatmix_controls(True)\<close> sends, opcode 73 with payload 1, the source builds
  64 bytes whose bytes 3 to 63 are 0x30, the ASCII digit \<open>0\<close>: the fill argument of
  \<open>ljust\<close> is \<^verbatim>\<open>b"0"\<close>, while the comment of \<open>_create_msgdata\<close> says "padded with
  zeroes".
\<close>

theorem create_msgdata_pads_with_ascii_zero:
  "create_msgdata [TX, OPT_CHATMIX_ENABLE, 1] = Inr ([6, 73, 1] @ replicate 61 0x30)
   \<and> (0x30 :: byte) \<noteq> 0"
  by (simp add: create_msgdata_def py_bytes_def ljust_def MSGLEN_def TX_def
      OPT_CHATMIX_ENABLE_def)

text \<open>
  C7, as stated: a payload longer than 62 bytes is rejected. It is not: for a payload
  of 63 bytes \<open>ljust\<close> has nothing to add and the 65 bytes are returned.
\<close>

theorem create_msgdata_accepts_63_byte_payload:
  "create_msgdata (TX # OPT_VOLUME # replicate 63 1) = Inr (6 # 37 # replicate 63 1)
   \<and> length (6 # 37 # replicate 63 (1::byte)) = 65"
  by (simp add: create_msgdata_def py_bytes_def ljust_def MSGLEN_def TX_def OPT_VOLUME_def
      list_all_iff)

text \<open>
  C7, amended: for an opcode and a payload of bytes, the message is built, never
  refused; it has exactly 64 bytes when the payload has at most 62, and it is the
  direction tag, the opcode and the payload with no padding when the payload is longer.
\<close>

theorem create_msgdata_length:
  assumes "list_all (\<lambda>x. 0 \<le> x \<and> x < 256) (opcode # payload)"
  shows "\<exists>m. create_msgdata (TX # opcode # payload) = Inr m \<and>
           (length payload \<le> 62 \<longrightarrow> length m = 64) \<and>
           (62 < length payload \<longrightarrow> m = map word_of_int (TX # opcode # payload))"
proof -
  have "list_all (\<lambda>x. 0 \<le> x \<and> x < 256) (TX # opcode # payload)"
    using assms by (simp add: TX_def)
  then have "create_msgdata (TX # opcode # payload) =
      Inr (map word_of_int (TX # opcode # payload) @
           replicate (64 - length (TX # opcode # payload)) 0x30)"
    by (rule create_msgdata_bytes)
  then show ?thesis by auto
qed

theorem create_msgdata_length_witness:
  "list_all (\<lambda>x. 0 \<le> x \<and> x < 256) [OPT_VOLUME, 5::int] \<and>
   (\<exists>m. create_msgdata [TX, OPT_VOLUME, 5] = Inr m \<and> length m = 64)"
  using create_msgdata_length [of OPT_VOLUME "[5]"] by (simp add: OPT_VOLUME_def)

subsection \<open>Finding the headset's sink\<close>

lemma detect_loop_fields [simp]:
  "PW_LOOPBACK_GAME_MODULE_ID (detect_loop ks s) = PW_LOOPBACK_GAME_MODULE_ID s"
  "PW_LOOPBACK_CHAT_MODULE_ID (detect_loop ks s) = PW_LOOPBACK_CHAT_MODULE_ID s"
  "CLOSE (detect_loop ks s) = CLOSE s"
  "server (detect_loop ks s) = server s"
  by (induction ks arbitrary: s) auto

lemma detect_loop_last:
  "PW_ORIGINAL_SINK (detect_loop ks s) =
     (case filter (\<lambda>k. sublist HEADSET_NAME (sink_name k)) ks of
        [] \<Rightarrow> PW_ORIGINAL_SINK s
      | k # rest \<Rightarrow> Some (sink_name (last (k # rest))))"
  by (induction ks arbitrary: s) (auto split: list.splits)


text \<open>
  C5, as stated: the first matching sink is selected. With two sinks of the headset
  in the list (analog and digital output) and one other sink between them, the source
  selects the second of the two: the loop has no \<^verbatim>\<open>break\<close>, and each match overwrites
  the one before.
\<close>

theorem detect_original_sink_takes_second_match:
  "PW_ORIGINAL_SINK (detect_original_sink
      (fresh (pulse_of [headset_sink, speakers_sink, headset_sink2] []))) =
     Some (sink_name headset_sink2)
   \<and> sink_name headset_sink2 \<noteq> sink_name headset_sink"
  by code_simp

text \<open>
  C5, amended: when no target is set and the sink list has at least one sink whose name
  contains the headset name, the last such sink of the list is selected.
\<close>

theorem detect_original_sink_last_match:
  assumes "\<not> truthy (PW_ORIGINAL_SINK s)"
    and "filter (\<lambda>k. sublist HEADSET_NAME (sink_name k)) (sinks (server s)) \<noteq> []"
  shows "PW_ORIGINAL_SINK (detect_original_sink s) =
     Some (sink_name (last (filter (\<lambda>k. sublist HEADSET_NAME (sink_name k))
                               (sinks (server s)))))"
  using assms by (simp add: detect_original_sink_def detect_loop_last split: list.splits)

theorem detect_original_sink_last_match_witness:
  "\<not> truthy (PW_ORIGINAL_SINK
        (fresh (pulse_of [headset_sink, speakers_sink, headset_sink2] []))) \<and>
   filter (\<lambda>k. sublist HEADSET_NAME (sink_name k))
     (sinks (server (fresh (pulse_of [headset_sink, speakers_sink, headset_sink2] [])))) =
     [headset_sink, headset_sink2] \<and>
   PW_ORIGINAL_SINK (detect_original_sink
      (fresh (pulse_of [headset_sink, speakers_sink, headset_sink2] []))) =
     Some ''alsa_output.usb-SteelSeries_Arctis_Nova_Pro_Wireless-00.iec958-stereo'' \<and>
   sink_name headset_sink =
     ''alsa_output.usb-SteelSeries_Arctis_Nova_Pro_Wireless-00.analog-stereo''"
proof -
  let ?s = "fresh (pulse_of [headset_sink, speakers_sink, headset_sink2] [])"
  have a: "\<not> truthy (PW_ORIGINAL_SINK ?s)" by code_simp
  have f: "filter (\<lambda>k. sublist HEADSET_NAME (sink_name k)) (sinks (server ?s)) =
      [headset_sink, headset_sink2]"
    by code_simp
  have b: "filter (\<lambda>k. sublist HEADSET_NAME (sink_name k)) (sinks (server ?s)) \<noteq> []"
    by (simp only: f) simp
  have n: "sink_name headset_sink2 =
      ''alsa_output.usb-SteelSeries_Arctis_Nova_Pro_Wireless-00.iec958-stereo''"
    "sink_name headset_sink =
      ''alsa_output.usb-SteelSeries_Arctis_Nova_Pro_Wireless-00.analog-stereo''"
    by (simp_all add: headset_sink_def headset_sink2_def)
  have "PW_ORIGINAL_SINK (detect_original_sink ?s) =
      Some (sink_name (last [headset_sink, headset_sink2]))"
    using detect_original_sink_last_match [OF a b] by (simp only: f)
  then have "PW_ORIGINAL_SINK (detect_original_sink ?s) =
      Some ''alsa_output.usb-SteelSeries_Arctis_Nova_Pro_Wireless-00.iec958-stereo''"
    by (simp add: n)
  with a f n show ?thesis by blast
qed

subsection \<open>Teardown of the virtual sinks\<close>

lemma remove_sink_fields [simp]:
  "PW_ORIGINAL_SINK (remove_sink s i) = PW_ORIGINAL_SINK s"
  "PW_LOOPBACK_GAME_MODULE_ID (remove_sink s i) = PW_LOOPBACK_GAME_MODULE_ID s"
  "PW_LOOPBACK_CHAT_MODULE_ID (remove_sink s i) = PW_LOOPBACK_CHAT_MODULE_ID s"
  "CHATMIX_CONTROLS_ENABLED (remove_sink s i) = CHATMIX_CONTROLS_ENABLED s"
  "SONAR_ICON_ENABLED (remove_sink s i) = SONAR_ICON_ENABLED s"
  "CLOSE (remove_sink s i) = CLOSE s"
  "written (remove_sink s i) = written s"
  "stdout (remove_sink s i) = stdout s"
  by (simp_all add: remove_sink_def split: option.splits)

lemma remove_sink_update [simp]:
  "remove_sink (s\<lparr>PW_LOOPBACK_GAME_MODULE_ID := v\<rparr>) i =
     (remove_sink s i)\<lparr>PW_LOOPBACK_GAME_MODULE_ID := v\<rparr>"
  "remove_sink (s\<lparr>PW_LOOPBACK_CHAT_MODULE_ID := v\<rparr>) i =
     (remove_sink s i)\<lparr>PW_LOOPBACK_CHAT_MODULE_ID := v\<rparr>"
  "remove_sink (s\<lparr>CLOSE := c\<rparr>) i = (remove_sink s i)\<lparr>CLOSE := c\<rparr>"
  "remove_sink (s\<lparr>stdout := out\<rparr>) i = (remove_sink s i)\<lparr>stdout := out\<rparr>"
  "remove_sink (s\<lparr>written := w\<rparr>) i = (remove_sink s i)\<lparr>written := w\<rparr>"
  "remove_sink (s\<lparr>SONAR_ICON_ENABLED := c\<rparr>) i = (remove_sink s i)\<lparr>SONAR_ICON_ENABLED := c\<rparr>"
  "remove_sink (s\<lparr>CHATMIX_CONTROLS_ENABLED := c\<rparr>) i =
     (remove_sink s i)\<lparr>CHATMIX_CONTROLS_ENABLED := c\<rparr>"
  by (simp_all add: remove_sink_def split: option.splits)

lemma remove_sink_not_loaded: "\<not> loaded (server (remove_sink s i)) (Some i)"
  by (auto simp: remove_sink_def loaded_def module_unload_def list_ex_iff find_None_iff
      find_Some_iff split: option.splits)

lemma remove_sink_loaded_mono:
  "loaded (server (remove_sink s i)) j \<Longrightarrow> loaded (server s) j"
  by (auto simp: remove_sink_def loaded_def module_unload_def list_ex_iff split: option.splits)

lemma remove_virtual_sinks_ids [simp]:
  "PW_LOOPBACK_GAME_MODULE_ID (remove_virtual_sinks s) = None"
  "PW_LOOPBACK_CHAT_MODULE_ID (remove_virtual_sinks s) = None"
  by (simp_all add: remove_virtual_sinks_def Let_def split: option.splits)

lemma remove_virtual_sinks_fields [simp]:
  "PW_ORIGINAL_SINK (remove_virtual_sinks s) = PW_ORIGINAL_SINK s"
  "CHATMIX_CONTROLS_ENABLED (remove_virtual_sinks s) = CHATMIX_CONTROLS_ENABLED s"
  "SONAR_ICON_ENABLED (remove_virtual_sinks s) = SONAR_ICON_ENABLED s"
  "CLOSE (remove_virtual_sinks s) = CLOSE s"
  "written (remove_virtual_sinks s) = written s"
  "stdout (remove_virtual_sinks s) = stdout s"
  by (simp_all add: remove_virtual_sinks_def Let_def split: option.splits)

lemma remove_virtual_sinks_not_loaded:
  "j \<noteq> None \<Longrightarrow> j = PW_LOOPBACK_GAME_MODULE_ID s \<or> j = PW_LOOPBACK_CHAT_MODULE_ID s \<Longrightarrow>
   \<not> loaded (server (remove_virtual_sinks s)) j"
  apply (cases "PW_LOOPBACK_GAME_MODULE_ID s"; cases "PW_LOOPBACK_CHAT_MODULE_ID s")
  apply (auto simp: remove_virtual_sinks_def Let_def remove_sink_not_loaded dest: remove_sink_loaded_mono)
  done

lemma remove_virtual_sinks_loaded_mono:
  "loaded (server (remove_virtual_sinks s)) j \<Longrightarrow> loaded (server s) j"
  by (auto simp: remove_virtual_sinks_def Let_def split: option.splits dest: remove_sink_loaded_mono)

lemma remove_virtual_sinks_idem:
  "remove_virtual_sinks (remove_virtual_sinks s) = remove_virtual_sinks s"
  by (simp add: remove_virtual_sinks_def [of "remove_virtual_sinks s"])

lemma remove_virtual_sinks_print_server:
  "server (remove_virtual_sinks ((print s l)\<lparr>CLOSE := True\<rparr>)) = server (remove_virtual_sinks s)"
  by (simp add: remove_virtual_sinks_def Let_def print_def split: option.splits)

subsection \<open>The read loop and shutdown\<close>

text \<open>
  C2. When the loop is active (the stop flag is not set) and the read raises a transport
  error other than the timeout, the loop ends whatever reads would follow, the stop flag
  is set and no Sink Binding remains: both module identifiers are cleared, and a module
  that was bound is no longer loaded in the audio server. This holds from every state,
  with two, one or no sink bound when the error occurs.
\<close>

theorem chatmix_fatal_error_teardown:
  assumes "\<not> CLOSE s"
  shows "\<exists>s'. chatmix_loop s (Read_error # rs) = Done s' \<and> CLOSE s' \<and> bindings s' = 0 \<and>
           PW_LOOPBACK_GAME_MODULE_ID s' = None \<and> PW_LOOPBACK_CHAT_MODULE_ID s' = None \<and>
           (PW_LOOPBACK_GAME_MODULE_ID s \<noteq> None \<longrightarrow>
              \<not> loaded (server s') (PW_LOOPBACK_GAME_MODULE_ID s)) \<and>
           (PW_LOOPBACK_CHAT_MODULE_ID s \<noteq> None \<longrightarrow>
              \<not> loaded (server s') (PW_LOOPBACK_CHAT_MODULE_ID s))"
proof -
  let ?t = "remove_virtual_sinks ((print s Device_disconnected)\<lparr>CLOSE := True\<rparr>)"
  have body: "chatmix_body s Read_error = Inr ?t"
    by (simp add: chatmix_body_def)
  have closed: "CLOSE ?t" by simp
  have "chatmix_loop s (Read_error # rs) = chatmix_loop ?t rs"
    using assms body by simp
  also have "\<dots> = Done (remove_virtual_sinks ?t)"
    using closed by (cases rs) simp_all
  also have "remove_virtual_sinks ?t = ?t"
    by (rule remove_virtual_sinks_idem)
  finally have run: "chatmix_loop s (Read_error # rs) = Done ?t" .
  have srv: "server ?t = server (remove_virtual_sinks s)"
    by (rule remove_virtual_sinks_print_server)
  have g: "PW_LOOPBACK_GAME_MODULE_ID s \<noteq> None \<longrightarrow>
      \<not> loaded (server ?t) (PW_LOOPBACK_GAME_MODULE_ID s)"
    unfolding srv using remove_virtual_sinks_not_loaded [of "PW_LOOPBACK_GAME_MODULE_ID s" s]
    by blast
  have c: "PW_LOOPBACK_CHAT_MODULE_ID s \<noteq> None \<longrightarrow>
      \<not> loaded (server ?t) (PW_LOOPBACK_CHAT_MODULE_ID s)"
    unfolding srv using remove_virtual_sinks_not_loaded [of "PW_LOOPBACK_CHAT_MODULE_ID s" s]
    by blast
  have b: "bindings ?t = 0" by (simp add: bindings_def)
  show ?thesis using run closed g c b by simp
qed

lemma one_sink_left_facts:
  "\<not> CLOSE one_sink_left" "bindings one_sink_left = 1"
  "PW_LOOPBACK_GAME_MODULE_ID one_sink_left = Some 3"
  "loaded (server one_sink_left) (Some 3)"
  "SONAR_ICON_ENABLED one_sink_left" "\<not> CHATMIX_CONTROLS_ENABLED one_sink_left"
  by (simp_all add: one_sink_left_def fresh_def bindings_def loaded_def card_module_def)

theorem chatmix_fatal_error_teardown_witness:
  "\<not> CLOSE one_sink_left \<and> bindings one_sink_left = 1 \<and>
   loaded (server one_sink_left) (Some 3) \<and>
   (\<exists>s'. chatmix_loop one_sink_left [Read_error, Read_timeout] = Done s' \<and> CLOSE s' \<and>
      bindings s' = 0 \<and> \<not> loaded (server s') (Some 3))"
  using chatmix_fatal_error_teardown [of one_sink_left "[Read_timeout]"] one_sink_left_facts by auto

text \<open>
  C3. A timeout of the read leaves the whole state as it was (feature flags, module
  identifiers, stop flag, audio server, output), and the loop goes on to the next read:
  it handles the following reads from the same state, and with no further answer it
  waits in a read.
\<close>

theorem chatmix_timeout_changes_nothing:
  assumes "\<not> CLOSE s"
  shows "chatmix_body s Read_timeout = Inr s \<and>
         chatmix_loop s (Read_timeout # rs) = chatmix_loop s rs \<and>
         chatmix_loop s [Read_timeout] = Blocked s"
  using assms by (simp add: chatmix_body_def)

theorem chatmix_timeout_changes_nothing_witness:
  "\<not> CLOSE one_sink_left \<and> chatmix_loop one_sink_left [Read_timeout] = Blocked one_sink_left"
  using chatmix_timeout_changes_nothing [of one_sink_left "[]"] one_sink_left_facts by simp



subsection \<open>Start-up and the number of bindings\<close>

lemma next_fault_cases:
  "next_fault p = (refused (faults p) 0, p\<lparr>faults := tl (faults p)\<rparr>)"
  by (cases "faults p") (simp_all add: next_fault_def refused_def)





lemma remove_sink_faults [simp]: "faults (server (remove_sink s i)) = faults (server s)"
  "next_index (server (remove_sink s i)) = next_index (server s)"
  by (simp_all add: remove_sink_def module_unload_def split: option.splits)

lemma remove_virtual_sinks_faults [simp]:
  "faults (server (remove_virtual_sinks s)) = faults (server s)"
  "next_index (server (remove_virtual_sinks s)) = next_index (server s)"
  by (simp_all add: remove_virtual_sinks_def Let_def split: option.splits)

lemma volume_set_all_chans_cases:
  "volume_set_all_chans p target v =
     (if refused (faults p) 0 then (Inl PulseError, p\<lparr>faults := tl (faults p)\<rparr>)
      else (Inr (),
            p\<lparr>faults := tl (faults p),
              sinks := map (\<lambda>k. if sink_index k = sink_index target
                                  then k\<lparr>sink_volume := v\<rparr> else k) (sinks p)\<rparr>))"
  by (simp add: volume_set_all_chans_def next_fault_cases)


lemma set_sink_volume_try_cases:
  "set_sink_volume_try s i v =
     (case target_sink (server s) i of
        None \<Rightarrow> print s (Sink_not_found i)
      | Some target \<Rightarrow>
          if refused (faults (server s)) 0
          then print (s\<lparr>server := (server s)\<lparr>faults := tl (faults (server s))\<rparr>\<rparr>)
                 Failed_to_set_volume
          else s\<lparr>server := (server s)
                 \<lparr>faults := tl (faults (server s)),
                  sinks := map (\<lambda>k. if sink_index k = sink_index target
                                      then k\<lparr>sink_volume := v\<rparr> else k)
                             (sinks (server s))\<rparr>\<rparr>)"
  by (simp add: set_sink_volume_try_def target_sink_def volume_set_all_chans_cases
      split: option.splits)

lemma set_sink_volume_try_fields [simp]:
  "PW_ORIGINAL_SINK (set_sink_volume_try s i v) = PW_ORIGINAL_SINK s"
  "PW_LOOPBACK_GAME_MODULE_ID (set_sink_volume_try s i v) = PW_LOOPBACK_GAME_MODULE_ID s"
  "PW_LOOPBACK_CHAT_MODULE_ID (set_sink_volume_try s i v) = PW_LOOPBACK_CHAT_MODULE_ID s"
  "CHATMIX_CONTROLS_ENABLED (set_sink_volume_try s i v) = CHATMIX_CONTROLS_ENABLED s"
  "SONAR_ICON_ENABLED (set_sink_volume_try s i v) = SONAR_ICON_ENABLED s"
  "CLOSE (set_sink_volume_try s i v) = CLOSE s"
  "written (set_sink_volume_try s i v) = written s"
  "connects (server (set_sink_volume_try s i v)) = connects (server s)"
  by (simp_all add: set_sink_volume_try_cases print_def split: option.splits)











subsection \<open>Start-up without a sink of the headset\<close>





subsection \<open>The binary64 product\<close>




subsection \<open>ChatMix reports\<close>




lemma target_sink_connects [simp]: "target_sink (p\<lparr>connects := c\<rparr>) i = target_sink p i"
  by (simp add: target_sink_def)

lemma sinks_set_sink_volume_try_not_found:
  "target_sink (server s) j = None \<Longrightarrow>
   server (set_sink_volume_try s j v) = server s"
  by (simp add: set_sink_volume_try_cases print_def)









subsection \<open>The direction byte\<close>

text \<open>
  C10, as stated: a message is processed the same whatever its byte 0. The status
  printer in debug mode prints the raw message first, byte 0 included, so the same
  volume report with the tag RX (7) and with the tag TX (6) gives different output.
\<close>

theorem print_output_debug_shows_direction_byte:
  "stdout (final (print_output no_headset True [Read_data (7 # 37 # 5 # replicate 61 0)])) =
     [Raw (7 # 37 # 5 # replicate 61 0), Volume_line 5] \<and>
   stdout (final (print_output no_headset True [Read_data (6 # 37 # 5 # replicate 61 0)])) =
     [Raw (6 # 37 # 5 # replicate 61 0), Volume_line 5] \<and>
   print_output no_headset True [Read_data (7 # 37 # 5 # replicate 61 0)] \<noteq>
   print_output no_headset True [Read_data (6 # 37 # 5 # replicate 61 0)]"
  by code_simp

text \<open>
  C10, amended: no branch of the inbound handling looks at byte 0. Two messages that
  differ in byte 0 only take the chatmix loop to the same result, are decoded to the
  same line, and take the status printer without debug to the same result; in debug
  mode the printer echoes the raw message as received and then goes on as without
  debug.
\<close>

theorem direction_byte_not_inspected:
  "chatmix_body s (Read_data (d # rest)) = chatmix_body s (Read_data (d' # rest)) \<and>
   chatmix_loop s (Read_data (d # rest) # rs) = chatmix_loop s (Read_data (d' # rest) # rs) \<and>
   describe (d # rest) = describe (d' # rest) \<and>
   print_output_body s False (Read_data (d # rest)) =
     print_output_body s False (Read_data (d' # rest)) \<and>
   print_output s False (Read_data (d # rest) # rs) =
     print_output s False (Read_data (d' # rest) # rs) \<and>
   print_output_body s True (Read_data (d # rest)) =
     print_output_body (print s (Raw (d # rest))) False (Read_data (d' # rest))"
proof -
  have b: "chatmix_body s (Read_data (d # rest)) = chatmix_body s (Read_data (d' # rest))"
    by (simp add: chatmix_body_def getitem_def nth_Cons')
  have de: "describe (d # rest) = describe (d' # rest)"
    by (simp add: describe_def getitem_def nth_Cons')
  have p: "print_output_body s dbg (Read_data (d # rest)) =
      print_output_body (if dbg then print s (Raw (d # rest)) else s) False
        (Read_data (d' # rest))" for dbg
    by (simp add: print_output_body_def de)
  show ?thesis using b de p [of False] p [of True] by simp
qed

end
